theory Spec2Isabelle
  imports Main "HOL-Library.Sublist"
begin

section \<open>The release build pipeline of build-scripts/build.py\<close>

text \<open>
  The script is a straight-line sequence of filesystem operations and external
  invocations. The model threads a \<open>world\<close> (the filesystem below the working directory
  and the list of external invocations made so far) through every step and returns an
  error value where the Python raises, together with the world reached at that moment.
  Logging through \<open>info\<close> has no effect on files or invocations and is left out.
\<close>

subsection \<open>Paths, files and values\<close>

text \<open>
  A path is its list of components below the working directory, so the relative
  \<open>build/usr/bin\<close> and the absolute \<open>OUTDIR / "usr" / "bin"\<close> (with
  \<open>OUTDIR = pathlib.Path("build").absolute()\<close>) are the same path; command lines show a
  path as pathlib's \<open>str\<close> does, relative to the working directory.
\<close>

type_synonym path = "string list"

datatype json = JNull | JBool bool | JNum int | JStr string
  | JArr "json list" | JObj "(string \<times> json) list"

text \<open>A file holds text, the text \<open>json.dumps\<close> makes of a value, or a property list.\<close>

datatype content = Text string | JsonText json | Plist "(string \<times> json) list"

datatype node = File content | Dir

type_synonym filesys = "path \<Rightarrow> node option"

datatype error =
    ValueError string
  | KeyError string
  | TypeError
  | OSError path
  | CalledProcessError "string list"
  | ExternalError string

datatype signing_type = APP | DMG | IME

record signing_data =
  bucket_name :: json
  aws_account_id :: json
  notarizing_secret_id :: json
  signing_request_queue_name :: json
  signing_role_name :: json

record cmd =
  argv :: "string list"
  cwd :: "string option"
  env :: "(string \<times> string) list option"

datatype event =
    RunCmd cmd
  | RunCmdOutput cmd
  | SignFile path signing_type signing_data
  | NotarizeFile path signing_data
  | RebundleDmg path path

record world =
  fs :: filesys
  trace :: "event list"

type_synonym build_args = "string \<Rightarrow> json option"

subsection \<open>What the script imports and what it runs\<close>

text \<open>
  \<open>util\<close> and \<open>signing\<close> are imported by the script and are not part of it, and the
  programs it starts are not either. They are the parameters of the model: the platform
  flags, the process environment, the clock, the helper \<open>n\<close> that tests a field of the
  configuration, Python's \<open>str\<close> on a configuration value, \<open>json.loads\<close>, what an
  external program does to the filesystem and whether it exits with status zero, and the
  three entry points of \<open>signing\<close>.
\<close>

record ext =
  IS_DARWIN :: bool
  IS_LINUX :: bool
  os_environ :: "(string \<times> string) list"
  now_isoformat :: string
  util_n :: "build_args \<Rightarrow> string \<Rightarrow> bool"
  py_str :: "json \<Rightarrow> string"
  json_loads :: "string \<Rightarrow> json option"
  exec :: "cmd \<Rightarrow> filesys \<Rightarrow> bool \<times> filesys"
  exec_output :: "cmd \<Rightarrow> filesys \<Rightarrow> string option \<times> filesys"
  signing_sign_file :: "path \<Rightarrow> signing_type \<Rightarrow> signing_data \<Rightarrow> filesys \<Rightarrow> error option \<times> filesys"
  signing_notarize_file :: "path \<Rightarrow> signing_data \<Rightarrow> filesys \<Rightarrow> error option \<times> filesys"
  signing_rebundle_dmg :: "path \<Rightarrow> path \<Rightarrow> filesys \<Rightarrow> error option \<times> filesys"

subsection \<open>Steps that may raise\<close>

type_synonym 'a step = "world \<Rightarrow> (error + 'a) \<times> world"

definition ok :: "'a \<Rightarrow> 'a step" where
  "ok a w = (Inr a, w)"

definition throw :: "error \<Rightarrow> 'a step" where
  "throw e w = (Inl e, w)"

definition bnd :: "'a step \<Rightarrow> ('a \<Rightarrow> 'b step) \<Rightarrow> 'b step" where
  "bnd m k w = (case m w of (Inl e, w') \<Rightarrow> (Inl e, w') | (Inr a, w') \<Rightarrow> k a w')"

definition thn :: "unit step \<Rightarrow> 'b step \<Rightarrow> 'b step" where
  "thn m k = bnd m (\<lambda>_. k)"

fun seq :: "unit step list \<Rightarrow> unit step" where
  "seq [] = ok ()"
| "seq (m # ms) = thn m (seq ms)"

definition lift :: "error + 'a \<Rightarrow> 'a step" where
  "lift r w = (r, w)"

subsection \<open>pathlib and shutil\<close>

fun join :: "string \<Rightarrow> string list \<Rightarrow> string" where
  "join sep [] = []"
| "join sep [x] = x"
| "join sep (x # y # ys) = x @ sep @ join sep (y # ys)"

definition path_str :: "path \<Rightarrow> string" where
  "path_str p = join ''/'' p"

definition removesuffix :: "string \<Rightarrow> string \<Rightarrow> string" where
  "removesuffix s suf =
     (if suf \<noteq> [] \<and> suffix suf s then take (length s - length suf) s else s)"

definition is_dir :: "filesys \<Rightarrow> path \<Rightarrow> bool" where
  "is_dir f p = (p = [] \<or> f p = Some Dir)"

definition is_file :: "filesys \<Rightarrow> path \<Rightarrow> bool" where
  "is_file f p = (p \<noteq> [] \<and> (case f p of Some (File c) \<Rightarrow> True | _ \<Rightarrow> False))"

fun strip_prefix :: "path \<Rightarrow> path \<Rightarrow> path option" where
  "strip_prefix [] q = Some q"
| "strip_prefix (a # p) [] = None"
| "strip_prefix (a # p) (b # q) = (if a = b then strip_prefix p q else None)"

text \<open>\<open>Path.mkdir(parents=True, exist_ok=True)\<close>: raises when the path or one of its
  parents is a file, and otherwise makes every missing directory on the way.\<close>

definition with_dirs :: "path \<Rightarrow> filesys \<Rightarrow> filesys" where
  "with_dirs p f q = (if q \<noteq> [] \<and> prefix q p then Some Dir else f q)"

definition mkdir_parents :: "path \<Rightarrow> unit step" where
  "mkdir_parents p w =
     (if list_ex (is_file (fs w)) (prefixes p) then (Inl (OSError p), w)
      else (Inr (), w\<lparr>fs := with_dirs p (fs w)\<rparr>))"

text \<open>\<open>Path.write_text\<close>: the parent directory must exist and the path must not be a
  directory.\<close>

definition write_text :: "path \<Rightarrow> content \<Rightarrow> unit step" where
  "write_text p c w =
     (if p = [] \<or> \<not> is_dir (fs w) (butlast p) \<or> fs w p = Some Dir then (Inl (OSError p), w)
      else (Inr (), w\<lparr>fs := (fs w)(p \<mapsto> File c)\<rparr>))"

text \<open>\<open>Path.unlink(missing_ok=True)\<close>: nothing happens when the path is missing; a
  directory is refused.\<close>

definition unlink_missing_ok :: "path \<Rightarrow> unit step" where
  "unlink_missing_ok p w =
     (if is_dir (fs w) p then (Inl (OSError p), w)
      else (Inr (), w\<lparr>fs := (fs w)(p := None)\<rparr>))"

text \<open>\<open>shutil.rmtree(path, ignore_errors=True)\<close>: removes a directory with everything
  below it; on a missing path or a file the error is ignored and nothing changes.\<close>

definition without_tree :: "path \<Rightarrow> filesys \<Rightarrow> filesys" where
  "without_tree p f q = (if prefix p q then None else f q)"

definition rmtree_ignore_errors :: "path \<Rightarrow> unit step" where
  "rmtree_ignore_errors p w =
     (if p \<noteq> [] \<and> fs w p = Some Dir
      then (Inr (), w\<lparr>fs := without_tree p (fs w)\<rparr>)
      else (Inr (), w))"

text \<open>\<open>shutil.copytree(src, dst, dirs_exist_ok=b)\<close>: the source must be a directory;
  the destination must not exist unless \<open>b\<close>, and neither it nor a parent may be a file.
  The destination and its parents become directories and every entry below the source
  is written at the same place below the destination, over the file that was there; a
  directory of the destination stays a directory.\<close>

definition with_tree :: "path \<Rightarrow> path \<Rightarrow> filesys \<Rightarrow> filesys" where
  "with_tree src dst f q =
     (if q \<noteq> [] \<and> prefix q dst then Some Dir
      else (case strip_prefix dst q of
              None \<Rightarrow> f q
            | Some r \<Rightarrow>
                (case f (src @ r) of
                   None \<Rightarrow> f q
                 | Some e \<Rightarrow> if f q = Some Dir then Some Dir else Some e)))"

definition copytree :: "path \<Rightarrow> path \<Rightarrow> bool \<Rightarrow> unit step" where
  "copytree src dst dirs_exist_ok w =
     (if \<not> is_dir (fs w) src then (Inl (OSError src), w)
      else if (\<not> dirs_exist_ok \<and> is_dir (fs w) dst) \<or> list_ex (is_file (fs w)) (prefixes dst)
      then (Inl (OSError dst), w)
      else (Inr (), w\<lparr>fs := with_tree src dst (fs w)\<rparr>))"

text \<open>\<open>shutil.copy2(src, dst)\<close>: the source must be a file; a destination that is a
  directory receives the file under the source's name; the directory written into must
  exist.\<close>

definition copy2 :: "path \<Rightarrow> path \<Rightarrow> unit step" where
  "copy2 src dst w =
     (case (if src = [] then None else fs w src) of
        Some (File c) \<Rightarrow>
          (let target = (if is_dir (fs w) dst then dst @ [last src] else dst)
           in if \<not> is_dir (fs w) (butlast target) \<or> is_dir (fs w) target
              then (Inl (OSError target), w)
              else (Inr (), w\<lparr>fs := (fs w)(target \<mapsto> File c)\<rparr>))
      | _ \<Rightarrow> (Inl (OSError src), w))"

text \<open>\<open>PurePath.with_name\<close> raises ValueError on a path without a name.\<close>

definition with_name :: "path \<Rightarrow> string \<Rightarrow> error + path" where
  "with_name p name =
     (if p = [] \<or> last p = [] then Inl (ValueError ''empty name'') else Inr (butlast p @ [name]))"

subsection \<open>The imported helpers\<close>

text \<open>Modelled from the spec: \<open>util.run_cmd\<close> is not under src/. It starts the program
  and a non-zero exit is fatal: it raises, after whatever the program did to the
  filesystem. The model records the invocation.\<close>

definition run_cmd :: "ext \<Rightarrow> cmd \<Rightarrow> unit step" where
  "run_cmd x c w =
     (case exec x c (fs w) of
        (status_ok, f') \<Rightarrow>
          ((if status_ok then Inr () else Inl (CalledProcessError (argv c))),
           w\<lparr>fs := f', trace := trace w @ [RunCmd c]\<rparr>))"

text \<open>Modelled from the spec: \<open>util.run_cmd_output\<close> is not under src/. It is
  \<open>run_cmd\<close> returning the program's standard output.\<close>

definition run_cmd_output :: "ext \<Rightarrow> cmd \<Rightarrow> string step" where
  "run_cmd_output x c w =
     (case exec_output x c (fs w) of
        (out, f') \<Rightarrow>
          ((case out of Some s \<Rightarrow> Inr s | None \<Rightarrow> Inl (CalledProcessError (argv c))),
           w\<lparr>fs := f', trace := trace w @ [RunCmdOutput c]\<rparr>))"

text \<open>Modelled from the spec: \<open>util.n\<close> is not under src/; it tells whether the
  configuration supplies a field.\<close>

definition n :: "ext \<Rightarrow> build_args \<Rightarrow> string \<Rightarrow> bool" where
  "n x build_args key = util_n x build_args key"

text \<open>Modelled from the spec: \<open>signing.sign_file\<close>, \<open>signing.notarize_file\<close> and
  \<open>signing.rebundle_dmg\<close> are not under src/. Each blocks until the external service has
  answered with success or failure, and failure is fatal.\<close>

definition sign_file :: "ext \<Rightarrow> path \<Rightarrow> signing_type \<Rightarrow> signing_data \<Rightarrow> unit step" where
  "sign_file x p t sd w =
     (case signing_sign_file x p t sd (fs w) of
        (r, f') \<Rightarrow>
          ((case r of None \<Rightarrow> Inr () | Some e \<Rightarrow> Inl e),
           w\<lparr>fs := f', trace := trace w @ [SignFile p t sd]\<rparr>))"

definition notarize_file :: "ext \<Rightarrow> path \<Rightarrow> signing_data \<Rightarrow> unit step" where
  "notarize_file x p sd w =
     (case signing_notarize_file x p sd (fs w) of
        (r, f') \<Rightarrow>
          ((case r of None \<Rightarrow> Inr () | Some e \<Rightarrow> Inl e),
           w\<lparr>fs := f', trace := trace w @ [NotarizeFile p sd]\<rparr>))"

definition rebundle_dmg :: "ext \<Rightarrow> path \<Rightarrow> path \<Rightarrow> unit step" where
  "rebundle_dmg x app_path dmg_path w =
     (case signing_rebundle_dmg x app_path dmg_path (fs w) of
        (r, f') \<Rightarrow>
          ((case r of None \<Rightarrow> Inr () | Some e \<Rightarrow> Inl e),
           w\<lparr>fs := f', trace := trace w @ [RebundleDmg app_path dmg_path]\<rparr>))"

text \<open>Indexing a dictionary raises KeyError on a missing key.\<close>

definition index :: "build_args \<Rightarrow> string \<Rightarrow> error + json" where
  "index d key = (case d key of None \<Rightarrow> Inl (KeyError key) | Some v \<Rightarrow> Inr v)"

fun obj_get :: "json \<Rightarrow> string \<Rightarrow> error + json" where
  "obj_get (JObj kvs) key =
     (case map_of (rev kvs) key of None \<Rightarrow> Inl (KeyError key) | Some v \<Rightarrow> Inr v)"
| "obj_get _ key = Inl TypeError"

subsection \<open>The functions of build.py\<close>

definition OUTDIR :: path where
  "OUTDIR = [''build'']"

definition plain :: "string list \<Rightarrow> cmd" where
  "plain args = \<lparr>argv = args, cwd = None, env = None\<rparr>"

definition build_npm_packages :: "ext \<Rightarrow> (string \<times> path) list step" where
  "build_npm_packages x =
     (let dashboard_path = OUTDIR @ [''dashboard''];
          autocomplete_path = OUTDIR @ [''autocomplete'']
      in thn (seq
           [run_cmd x (plain [''pnpm'', ''install'', ''--frozen-lockfile'']),
            run_cmd x (plain [''pnpm'', ''build'']),
            rmtree_ignore_errors dashboard_path,
            copytree [''apps'', ''dashboard'', ''dist''] dashboard_path False,
            rmtree_ignore_errors autocomplete_path,
            copytree [''apps'', ''autocomplete'', ''dist''] autocomplete_path False])
           (ok [(''dashboard'', dashboard_path), (''autocomplete'', autocomplete_path)]))"

definition rust_env :: "ext \<Rightarrow> string option \<Rightarrow> (string \<times> string) list" where
  "rust_env x linker =
     (let rustflags =
            [''-C force-frame-pointers=yes'']
            @ (case linker of
                 None \<Rightarrow> []
               | Some l \<Rightarrow> if l = [] then [] else [''-C link-arg=-fuse-ld='' @ l])
            @ (if IS_LINUX x then [''-C link-arg=-Wl,--compress-debug-sections=zlib''] else [])
      in [(''CARGO_INCREMENTAL'', ''0''),
          (''CARGO_PROFILE_RELEASE_LTO'', ''thin''),
          (''RUSTFLAGS'', join '' '' rustflags),
          (''CARGO_NET_GIT_FETCH_WITH_CLI'', ''true'')]
         @ (if IS_DARWIN x then [(''MACOSX_DEPLOYMENT_TARGET'', ''10.13'')] else []))"

text \<open>\<open>if features: args.extend(["--features", ",".join(features)])\<close>; an empty list
  is false.\<close>

definition features_args :: "string list option \<Rightarrow> string list" where
  "features_args features =
     (case features of
        None \<Rightarrow> []
      | Some fl \<Rightarrow> if fl = [] then [] else [''--features'', join '','' fl])"

text \<open>\<open>output_name or package\<close>: the empty string is false.\<close>

definition name_or :: "string option \<Rightarrow> string \<Rightarrow> string" where
  "name_or output_name package =
     (case output_name of None \<Rightarrow> package | Some s \<Rightarrow> if s = [] then package else s)"

text \<open>The environment of a command is a dictionary built by \<open>{**a, **b}\<close>: the list
  of bindings in that order, a later binding of a name replacing an earlier one.\<close>

definition cargo_build_cmd :: "ext \<Rightarrow> string \<Rightarrow> string list \<Rightarrow> string list option \<Rightarrow> cmd" where
  "cargo_build_cmd x package targets features =
     \<lparr>argv = [''cargo'', ''build'', ''--release'', ''--locked'', ''--package'', package]
             @ concat (map (\<lambda>target. [''--target'', target]) targets)
             @ features_args features,
      cwd = None,
      env = Some (os_environ x @ rust_env x None)\<rparr>"

definition lipo_cmd :: "string \<Rightarrow> string list \<Rightarrow> path \<Rightarrow> cmd" where
  "lipo_cmd package targets outpath =
     plain ([''lipo'', ''-create'', ''-output'', path_str outpath]
            @ map (\<lambda>target. ''target/'' @ target @ ''/release/'' @ package) targets)"

definition build_cargo_bin ::
  "ext \<Rightarrow> string \<Rightarrow> string option \<Rightarrow> string list option \<Rightarrow> path step" where
  "build_cargo_bin x package output_name features =
     (if \<not> IS_DARWIN x \<and> \<not> IS_LINUX x then throw (ValueError ''Unsupported platform'')
      else
        (let targets = (if IS_DARWIN x then [''x86_64-apple-darwin'', ''aarch64-apple-darwin'']
                        else [''x86_64-unknown-linux-gnu''])
         in thn (run_cmd x (cargo_build_cmd x package targets features))
              (if IS_DARWIN x then
                 (let outpath = OUTDIR @ [name_or output_name package @ ''-universal-apple-darwin'']
                  in thn (run_cmd x (lipo_cmd package targets outpath)) (ok outpath))
               else
                 (let target_path = [''target'', ''x86_64-unknown-linux-gnu'', ''release'', package];
                      out_path = OUTDIR @ [name_or output_name package]
                  in thn (copy2 target_path out_path) (ok out_path)))))"

definition cargo_test_cmd :: "ext \<Rightarrow> string list option \<Rightarrow> cmd" where
  "cargo_test_cmd x features =
     \<lparr>argv = [''cargo'', ''test'', ''--release'', ''--locked''] @ features_args features,
      cwd = None,
      env = Some (os_environ x @ rust_env x None @ [(''RUST_BACKTRACE'', ''1'')])\<rparr>"

definition run_cargo_tests :: "ext \<Rightarrow> string list option \<Rightarrow> unit step" where
  "run_cargo_tests x features = run_cmd x (cargo_test_cmd x features)"

definition cargo_metadata_cmd :: cmd where
  "cargo_metadata_cmd = plain [''cargo'', ''metadata'', ''--format-version'', ''1'', ''--no-deps'']"

definition loads :: "ext \<Rightarrow> string \<Rightarrow> error + json" where
  "loads x s = (case json_loads x s of None \<Rightarrow> Inl (ValueError ''JSONDecodeError'') | Some v \<Rightarrow> Inr v)"

fun find_version :: "json list \<Rightarrow> error + json" where
  "find_version [] = Inl (ValueError ''Version not found'')"
| "find_version (pkg # pkgs) =
     (case obj_get pkg ''name'' of
        Inl e \<Rightarrow> Inl e
      | Inr nm \<Rightarrow> if nm = JStr ''fig_desktop'' then obj_get pkg ''version'' else find_version pkgs)"

definition version :: "ext \<Rightarrow> json step" where
  "version x =
     bnd (run_cmd_output x cargo_metadata_cmd) (\<lambda>output.
     lift (case loads x output of
             Inl e \<Rightarrow> Inl e
           | Inr data \<Rightarrow>
               (case obj_get data ''packages'' of
                  Inl e \<Rightarrow> Inl e
                | Inr (JArr pkgs) \<Rightarrow> find_version pkgs
                | Inr _ \<Rightarrow> Inl TypeError)))"

definition gen_manifest :: "ext \<Rightarrow> content step" where
  "gen_manifest x =
     bnd (run_cmd_output x cargo_metadata_cmd) (\<lambda>dc_output.
     bnd (lift (case loads x dc_output of
                  Inl e \<Rightarrow> Inl e
                | Inr data \<Rightarrow>
                    (case obj_get data ''metadata'' of
                       Inl e \<Rightarrow> Inl e
                     | Inr md \<Rightarrow> obj_get md ''channel''))) (\<lambda>dc.
     bnd (version x) (\<lambda>v.
     ok (JsonText (JObj
          [(''managed_by'', JStr ''dmg''),
           (''packaged_at'', JStr (now_isoformat x)),
           (''packaged_by'', JStr ''amazon''),
           (''variant'', JStr ''full''),
           (''version'', v),
           (''kind'', JStr ''dmg''),
           (''default_channel'', dc)])))))"

definition build_macos_ime :: "ext \<Rightarrow> signing_data option \<Rightarrow> path step" where
  "build_macos_ime x signing_data =
     bnd (build_cargo_bin x ''fig_input_method'' None None) (\<lambda>fig_input_method_bin.
     (let input_method_app = [''build'', ''CodeWhispererInputMethod.app'']
      in thn (seq
           [mkdir_parents (input_method_app @ [''Contents'', ''MacOS'']),
            copy2 fig_input_method_bin (input_method_app @ [''Contents'', ''MacOS'', ''fig_input_method'']),
            copy2 [''fig_input_method'', ''Info.plist''] (input_method_app @ [''Contents'', ''Info.plist'']),
            copytree [''fig_input_method'', ''resources''] (input_method_app @ [''Contents'', ''Resources'']) True,
            (case signing_data of
               None \<Rightarrow> ok ()
             | Some sd \<Rightarrow>
                 seq [sign_file x input_method_app IME sd,
                      notarize_file x input_method_app sd])])
           (ok input_method_app)))"

definition tauri_config :: "path \<Rightarrow> path \<Rightarrow> string \<Rightarrow> content" where
  "tauri_config cw_cli_path cwterm_path target =
     JsonText (JObj
       [(''tauri'', JObj
          [(''bundle'', JObj
             [(''externalBin'',
                 JArr [JStr (removesuffix (path_str cw_cli_path) (''-'' @ target)),
                       JStr (removesuffix (path_str cwterm_path) (''-'' @ target))]),
              (''resources'', JArr [JStr ''manifest.json''])])])])"

definition sign_and_rebundle_macos :: "ext \<Rightarrow> path \<Rightarrow> path \<Rightarrow> signing_data \<Rightarrow> unit step" where
  "sign_and_rebundle_macos x app_path dmg_path signing_data =
     seq [sign_file x app_path APP signing_data,
          notarize_file x app_path signing_data,
          rebundle_dmg x app_path dmg_path,
          sign_file x dmg_path DMG signing_data,
          notarize_file x dmg_path signing_data]"

text \<open>Lines 263 to 308 of \<open>build_desktop_app\<close>: the four edits of the bundle's
  \<open>Info.plist\<close>.\<close>

definition url_types_xml :: string where
  "url_types_xml = join [CHR 0x0A]
     [''<array>'',
      ''    <dict>'',
      ''        <key>CFBundleURLName</key>'',
      ''        <string>com.amazon.codewhisperer</string>'',
      ''        <key>CFBundleURLSchemes</key>'',
      ''        <array>'',
      ''        <string>codewhisperer</string>'',
      ''        </array>'',
      ''    </dict>'',
      ''    </array>'',
      ''    '']"

definition patch_info_plist :: "ext \<Rightarrow> path \<Rightarrow> unit step" where
  "patch_info_plist x info_plist_path =
     seq [run_cmd x (plain [''defaults'', ''write'', path_str info_plist_path,
                            ''CFBundleDisplayName'', ''CodeWhisperer'']),
          run_cmd x (plain [''defaults'', ''write'', path_str info_plist_path,
                            ''CFBundleName'', ''CodeWhisperer'']),
          run_cmd x (plain [''defaults'', ''write'', path_str info_plist_path,
                            ''LSUIElement'', ''-bool'', ''TRUE'']),
          run_cmd x (plain [''plutil'', ''-insert'', ''CFBundleURLTypes'', ''-xml'',
                            url_types_xml, path_str info_plist_path])]"

definition manifest_path :: path where
  "manifest_path = [''fig_desktop'', ''manifest.json'']"

definition tauri_config_path :: path where
  "tauri_config_path = [''fig_desktop'', ''build-config.json'']"

definition dmg_spec_path :: path where
  "dmg_spec_path = [''bundle'', ''dmg'', ''spec.json'']"

definition cargo_tauri_cmd :: "ext \<Rightarrow> string \<Rightarrow> string list option \<Rightarrow> cmd" where
  "cargo_tauri_cmd x target features =
     \<lparr>argv = [''cargo-tauri'', ''build'', ''--config'', ''build-config.json'', ''--target'', target]
             @ features_args features,
      cwd = Some ''fig_desktop'',
      env = Some (os_environ x @ rust_env x None @ [(''BUILD_DIR'', path_str OUTDIR)])\<rparr>"

definition dmg_spec :: "path \<Rightarrow> content" where
  "dmg_spec bundle_path =
     JsonText (JObj
       [(''title'', JStr ''CodeWhisperer''),
        (''icon'', JStr ''VolumeIcon.icns''),
        (''background'', JStr ''background.png''),
        (''icon-size'', JNum 160),
        (''format'', JStr ''ULFO''),
        (''window'', JObj [(''size'', JObj [(''width'', JNum 660), (''height'', JNum 400)])]),
        (''contents'', JArr
           [JObj [(''x'', JNum 180), (''y'', JNum 170), (''type'', JStr ''file''),
                  (''path'', JStr (path_str bundle_path))],
            JObj [(''x'', JNum 480), (''y'', JNum 170), (''type'', JStr ''link''),
                  (''path'', JStr ''/Applications'')]])])"

definition build_desktop_app ::
  "ext \<Rightarrow> path \<Rightarrow> path \<Rightarrow> (string \<times> path) list \<Rightarrow> signing_data option
     \<Rightarrow> string list option \<Rightarrow> path step" where
  "build_desktop_app x cwterm_path cw_cli_path npm_packages signing_data features =
     (let target = ''universal-apple-darwin'';
          target_bundle = [''target'', target, ''release'', ''bundle'', ''macos'',
                           ''codewhisperer_desktop.app''];
          bundle_path = OUTDIR @ [''CodeWhisperer.app''];
          info_plist_path = bundle_path @ [''Contents'', ''Info.plist''];
          helpers_dir = bundle_path @ [''Contents'', ''Helpers''];
          theme_repo = OUTDIR @ [''themes''];
          dmg_path = OUTDIR @ [''CodeWhisperer.dmg'']
      in
      bnd (build_macos_ime x signing_data) (\<lambda>ime_app.
      thn (seq
        [bnd (gen_manifest x) (write_text manifest_path),
         write_text tauri_config_path (tauri_config cw_cli_path cwterm_path target),
         run_cmd x (cargo_tauri_cmd x target features),
         unlink_missing_ok manifest_path,
         unlink_missing_ok tauri_config_path,
         rmtree_ignore_errors bundle_path,
         copytree target_bundle bundle_path False,
         patch_info_plist x info_plist_path,
         mkdir_parents helpers_dir,
         copytree ime_app (helpers_dir @ [''CodeWhispererInputMethod.app'']) False,
         rmtree_ignore_errors theme_repo,
         run_cmd x (plain [''git'', ''clone'', ''https://github.com/withfig/themes.git'',
                           path_str theme_repo]),
         copytree (theme_repo @ [''themes'']) (bundle_path @ [''Contents'', ''Resources'', ''themes'']) False,
         seq (map (\<lambda>(package, path).
                copytree path (bundle_path @ [''Contents'', ''Resources'', package]) False)
              npm_packages),
         write_text dmg_spec_path (dmg_spec bundle_path),
         unlink_missing_ok dmg_path,
         run_cmd x (plain [''pnpm'', ''appdmg'', path_str dmg_spec_path, path_str dmg_path]),
         unlink_missing_ok dmg_spec_path,
         (case signing_data of
            None \<Rightarrow> ok ()
          | Some sd \<Rightarrow> sign_and_rebundle_macos x bundle_path dmg_path sd)])
        (ok dmg_path)))"





definition shasum_cmd :: "path \<Rightarrow> cmd" where
  "shasum_cmd p = plain [''shasum'', ''-a'', ''256'', path_str p]"

definition generate_sha :: "ext \<Rightarrow> path \<Rightarrow> path step" where
  "generate_sha x p =
     bnd (run_cmd_output x (shasum_cmd p)) (\<lambda>shasum_output.
     (let sha = takeWhile (\<lambda>c. c \<noteq> CHR '' '') shasum_output
      in bnd (lift (with_name p (last p @ ''.sha256''))) (\<lambda>p'.
         thn (write_text p' (Text sha)) (ok p'))))"

subsection \<open>The module's entry point\<close>

text \<open>Lines 412 to 430: the signing configuration and the feature list.\<close>

definition parse_signing_data :: "ext \<Rightarrow> build_args \<Rightarrow> error + signing_data option" where
  "parse_signing_data x build_args =
     (if n x build_args ''signing_bucket'' \<and> n x build_args ''signing_queue''
         \<and> n x build_args ''apple_id_secret''
      then
        (case index build_args ''signing_bucket'' of Inl e \<Rightarrow> Inl e | Inr b \<Rightarrow>
        (case index build_args ''aws_account_id'' of Inl e \<Rightarrow> Inl e | Inr a \<Rightarrow>
        (case index build_args ''apple_id_secret'' of Inl e \<Rightarrow> Inl e | Inr s \<Rightarrow>
        (case index build_args ''signing_queue'' of Inl e \<Rightarrow> Inl e | Inr q \<Rightarrow>
        (case index build_args ''signing_role_name'' of Inl e \<Rightarrow> Inl e | Inr r \<Rightarrow>
           Inr (Some \<lparr>bucket_name = b, aws_account_id = a, notarizing_secret_id = s,
                      signing_request_queue_name = q, signing_role_name = r\<rparr>))))))
      else Inr None)"

definition parse_features :: "ext \<Rightarrow> build_args \<Rightarrow> string list option" where
  "parse_features x build_args = (if n x build_args ''gamma'' then Some [''gamma''] else None)"

text \<open>Lines 461 to 466 and 468 to 473: the upload of the listed files when an output
  bucket is configured.\<close>

definition upload :: "ext \<Rightarrow> build_args \<Rightarrow> path list \<Rightarrow> unit step" where
  "upload x build_args paths =
     (if n x build_args ''output_bucket'' then
        bnd (lift (index build_args ''output_bucket'')) (\<lambda>b.
        (let staging_location = ''s3://'' @ py_str x b @ ''/staging/''
         in seq (map (\<lambda>p. run_cmd x (plain [''aws'', ''s3'', ''cp'', path_str p, staging_location]))
                  paths)))
      else ok ())"

text \<open>Lines 449 to 473: what follows the two builds, by platform.\<close>

definition package_and_publish ::
  "ext \<Rightarrow> build_args \<Rightarrow> signing_data option \<Rightarrow> string list option
     \<Rightarrow> (string \<times> path) list \<Rightarrow> path \<Rightarrow> path \<Rightarrow> unit step" where
  "package_and_publish x build_args signing_data features npm_packages cw_cli_path cwterm_path =
     (if IS_DARWIN x then
        bnd (build_desktop_app x cwterm_path cw_cli_path npm_packages signing_data features)
          (\<lambda>dmg_path.
        bnd (generate_sha x dmg_path) (\<lambda>sha_path.
        upload x build_args [dmg_path, sha_path]))
      else if IS_LINUX x then upload x build_args [cw_cli_path, cwterm_path]
      else ok ())"

text \<open>Lines 437 to 473: the stages, once the configuration is read and the output
  directory made.\<close>

definition run_stages ::
  "ext \<Rightarrow> build_args \<Rightarrow> signing_data option \<Rightarrow> string list option \<Rightarrow> unit step" where
  "run_stages x build_args signing_data features =
     bnd (build_npm_packages x) (\<lambda>npm_packages.
     thn (run_cargo_tests x features)
    (bnd (build_cargo_bin x ''cw_cli'' (Some ''cw'') features) (\<lambda>cw_cli_path.
     bnd (build_cargo_bin x ''figterm'' (Some ''cwterm'') features) (\<lambda>cwterm_path.
     package_and_publish x build_args signing_data features npm_packages
       cw_cli_path cwterm_path))))"

text \<open>Lines 410 to 473, on the parsed configuration.\<close>

definition pipeline :: "ext \<Rightarrow> build_args \<Rightarrow> unit step" where
  "pipeline x build_args =
     bnd (lift (parse_signing_data x build_args)) (\<lambda>signing_data.
     thn (mkdir_parents OUTDIR)
       (run_stages x build_args signing_data (parse_features x build_args)))"

subsection \<open>Sample platforms and worlds\<close>

text \<open>A platform on which every external program and every signing request succeeds and
  leaves the files alone, and on which \<open>n\<close> holds of a field that is present and not
  null.\<close>

definition quiet_ext :: "bool \<Rightarrow> bool \<Rightarrow> ext" where
  "quiet_ext darwin linux =
     \<lparr>IS_DARWIN = darwin, IS_LINUX = linux, os_environ = [],
      now_isoformat = ''2024-01-01T00:00:00'',
      util_n = (\<lambda>d key. case d key of None \<Rightarrow> False | Some v \<Rightarrow> v \<noteq> JNull),
      py_str = (\<lambda>v. case v of JStr s \<Rightarrow> s | _ \<Rightarrow> ''None''),
      json_loads = (\<lambda>s. None),
      exec = (\<lambda>c f. (True, f)),
      exec_output = (\<lambda>c f. (Some [], f)),
      signing_sign_file = (\<lambda>p t sd f. (None, f)),
      signing_notarize_file = (\<lambda>p sd f. (None, f)),
      signing_rebundle_dmg = (\<lambda>a d f. (None, f))\<rparr>"

definition empty_world :: world where
  "empty_world = \<lparr>fs = (\<lambda>q. None), trace = []\<rparr>"

definition sample_signing :: signing_data where
  "sample_signing =
     \<lparr>bucket_name = JStr ''b'', aws_account_id = JStr ''1'', notarizing_secret_id = JStr ''s'',
      signing_request_queue_name = JStr ''q'', signing_role_name = JStr ''r''\<rparr>"

text \<open>A working directory with the frontend's build outputs, the Linux build outputs, and an
  output directory left by an earlier run.\<close>

definition asset_world :: world where
  "asset_world =
     \<lparr>fs = map_of
        [([''build''], Dir), ([''build'', ''stale.txt''], File (Text ''stale'')),
         ([''apps''], Dir), ([''apps'', ''dashboard''], Dir),
         ([''apps'', ''dashboard'', ''dist''], Dir),
         ([''apps'', ''dashboard'', ''dist'', ''index.html''], File (Text ''dashboard'')),
         ([''apps'', ''autocomplete''], Dir), ([''apps'', ''autocomplete'', ''dist''], Dir),
         ([''target'', ''x86_64-unknown-linux-gnu'', ''release'', ''cw_cli''], File (Text ''cw'')),
         ([''target'', ''x86_64-unknown-linux-gnu'', ''release'', ''figterm''], File (Text ''term''))],
      trace = []\<rparr>"

text \<open>The same platform with a failing test suite.\<close>

definition red_tests :: "ext \<Rightarrow> ext" where
  "red_tests x = x\<lparr>exec := (\<lambda>c f. (take 2 (argv c) \<noteq> [''cargo'', ''test''], f))\<rparr>"

subsection \<open>Reading the record of invocations\<close>

text \<open>\<open>emits Q m\<close>: whatever the outcome, \<open>m\<close> only adds invocations to the record, and
  each one it adds satisfies \<open>Q\<close>.\<close>

definition emits :: "(event \<Rightarrow> bool) \<Rightarrow> 'a step \<Rightarrow> bool" where
  "emits Q m = (\<forall>w. \<exists>evs. trace (snd (m w)) = trace w @ evs \<and> list_all Q evs)"

definition is_cmd :: "event \<Rightarrow> bool" where
  "is_cmd e = (case e of RunCmd c \<Rightarrow> True | RunCmdOutput c \<Rightarrow> True | _ \<Rightarrow> False)"

definition any_event :: "event \<Rightarrow> bool" where
  "any_event e = True"

definition pnpm_install :: event where
  "pnpm_install = RunCmd (plain [''pnpm'', ''install'', ''--frozen-lockfile''])"

definition pnpm_build :: event where
  "pnpm_build = RunCmd (plain [''pnpm'', ''build''])"

text \<open>The invocations up to and including the test suite.\<close>

definition gate_events :: "ext \<Rightarrow> build_args \<Rightarrow> event list" where
  "gate_events x build_args =
     [pnpm_install, pnpm_build, RunCmd (cargo_test_cmd x (parse_features x build_args))]"

definition is_compilation :: "event \<Rightarrow> bool" where
  "is_compilation e = (case e of RunCmd c \<Rightarrow> take 2 (argv c) = [''cargo'', ''build''] | _ \<Rightarrow> False)"

definition is_test_gate :: "event \<Rightarrow> bool" where
  "is_test_gate e = (case e of RunCmd c \<Rightarrow> take 2 (argv c) = [''cargo'', ''test''] | _ \<Rightarrow> False)"

text \<open>\<open>comes_before P Q evs\<close>: some element satisfying \<open>P\<close> stands before some element
  satisfying \<open>Q\<close>.\<close>

fun comes_before :: "('a \<Rightarrow> bool) \<Rightarrow> ('a \<Rightarrow> bool) \<Rightarrow> 'a list \<Rightarrow> bool" where
  "comes_before P Q [] = False"
| "comes_before P Q (e # es) = ((P e \<and> list_ex Q es) \<or> comes_before P Q es)"


text \<open>A macOS platform whose \<open>shasum\<close> prints a digest, two spaces and the file name; a
  world with a disk image; a configuration that names an output bucket.\<close>

definition sha_ext :: ext where
  "sha_ext = (quiet_ext True False)
     \<lparr>exec_output := (\<lambda>c f. (Some ''0f343b09  build/CodeWhisperer.dmg'', f))\<rparr>"

definition dmg_world :: world where
  "dmg_world =
     \<lparr>fs = map_of [([''build''], Dir), ([''build'', ''CodeWhisperer.dmg''], File (Text ''image''))],
      trace = []\<rparr>"

definition bucket_args :: build_args where
  "bucket_args = [''output_bucket'' \<mapsto> JStr ''bkt'']"

text \<open>The command line that uploads one file.\<close>

definition upload_cmd :: "path \<Rightarrow> string \<Rightarrow> cmd" where
  "upload_cmd p staging_location = plain [''aws'', ''s3'', ''cp'', path_str p, staging_location]"








text \<open>\<open>keeps m\<close>: \<open>m\<close> removes no entry. \<open>keeps_dirs m\<close>: a directory stays a directory.\<close>

definition keeps :: "'a step \<Rightarrow> bool" where
  "keeps m = (\<forall>w q. fs w q \<noteq> None \<longrightarrow> fs (snd (m w)) q \<noteq> None)"




section \<open>Properties\<close>

subsection \<open>Running steps in sequence\<close>

lemma bnd_cases:
  assumes "bnd m k w = (r, w')"
  obtains (failed) e where "m w = (Inl e, w')" "r = Inl e"
        | (passed) a w1 where "m w = (Inr a, w1)" "k a w1 = (r, w')"
  using assms by (auto simp: bnd_def split: prod.splits sum.splits)

lemma thn_cases:
  assumes "thn m k w = (r, w')"
  obtains (failed) e where "m w = (Inl e, w')" "r = Inl e"
        | (passed) w1 where "m w = (Inr (), w1)" "k w1 = (r, w')"
  using assms unfolding thn_def by (erule bnd_cases) auto

lemma sign_file_trace: "trace (snd (sign_file x p t sd w)) = trace w @ [SignFile p t sd]"
  by (simp add: sign_file_def split: prod.splits)

lemma notarize_file_trace: "trace (snd (notarize_file x p sd w)) = trace w @ [NotarizeFile p sd]"
  by (simp add: notarize_file_def split: prod.splits)

lemma rebundle_dmg_trace: "trace (snd (rebundle_dmg x a d w)) = trace w @ [RebundleDmg a d]"
  by (simp add: rebundle_dmg_def split: prod.splits)

lemma run_cmd_trace: "trace (snd (run_cmd x c w)) = trace w @ [RunCmd c]"
  by (simp add: run_cmd_def split: prod.splits)

text \<open>A sequence of steps that each record one invocation records a prefix of the
  invocations, and all of them when it succeeds.\<close>

lemma seq_single_events:
  assumes "list_all2 (\<lambda>m e. \<forall>w. trace (snd (m w)) = trace w @ [e]) ms es"
    and "seq ms w = (r, w')"
  shows "\<exists>k\<le>length es. trace w' = trace w @ take k es \<and> (r = Inr () \<longrightarrow> k = length es)
           \<and> (es \<noteq> [] \<longrightarrow> 0 < k)"
  using assms
proof (induction ms es arbitrary: w rule: list_all2_induct)
  case Nil
  then show ?case by (simp add: ok_def)
next
  case (Cons m ms e es)
  from Cons.prems have "thn m (seq ms) w = (r, w')" by simp
  then show ?case
  proof (cases rule: thn_cases)
    case (failed err)
    then have "trace w' = trace w @ [e]" using Cons.hyps(1)[rule_format, of w] by simp
    then show ?thesis using failed by (intro exI[of _ 1]) simp
  next
    case (passed w1)
    then have t1: "trace w1 = trace w @ [e]" using Cons.hyps(1)[rule_format, of w] by simp
    from Cons.IH[OF passed(2)] obtain k where
      k: "k \<le> length es" "trace w' = trace w1 @ take k es" "r = Inr () \<longrightarrow> k = length es"
      by blast
    show ?thesis using k t1 by (intro exI[of _ "Suc k"]) simp
  qed
qed

subsection \<open>The order of signing\<close>

text \<open>
  C1. With a signing configuration, \<open>sign_and_rebundle_macos\<close> makes its requests in one
  order: sign the app, notarize the app, rebuild the disk image from the app, sign the
  disk image, notarize the disk image. Whatever the outcome, the requests it has made are
  a non-empty initial part of that list, so no later one comes before an earlier one, and
  when it returns without raising they are exactly the five.
\<close>

theorem sign_and_rebundle_macos_order:
  assumes "sign_and_rebundle_macos x app_path dmg_path sd w = (r, w')"
  shows "\<exists>evs. trace w' = trace w @ evs \<and> evs \<noteq> []
           \<and> prefix evs [SignFile app_path APP sd, NotarizeFile app_path sd,
                          RebundleDmg app_path dmg_path,
                          SignFile dmg_path DMG sd, NotarizeFile dmg_path sd]
           \<and> (r = Inr () \<longrightarrow>
                evs = [SignFile app_path APP sd, NotarizeFile app_path sd,
                       RebundleDmg app_path dmg_path,
                       SignFile dmg_path DMG sd, NotarizeFile dmg_path sd])"
proof -
  let ?es = "[SignFile app_path APP sd, NotarizeFile app_path sd, RebundleDmg app_path dmg_path,
              SignFile dmg_path DMG sd, NotarizeFile dmg_path sd]"
  have "list_all2 (\<lambda>m e. \<forall>w. trace (snd (m w)) = trace w @ [e])
     [sign_file x app_path APP sd, notarize_file x app_path sd, rebundle_dmg x app_path dmg_path,
      sign_file x dmg_path DMG sd, notarize_file x dmg_path sd] ?es"
    by (simp add: sign_file_trace notarize_file_trace rebundle_dmg_trace)
  from seq_single_events[OF this assms[unfolded sign_and_rebundle_macos_def]]
  obtain k where k: "k \<le> length ?es" "trace w' = trace w @ take k ?es"
    "r = Inr () \<longrightarrow> k = length ?es" "0 < k"
    by auto
  have "take k ?es \<noteq> []" using k(4) by (cases k) simp_all
  moreover have "prefix (take k ?es) ?es" by (rule take_is_prefix)
  moreover have "r = Inr () \<longrightarrow> take k ?es = ?es" using k(3) by simp
  ultimately show ?thesis using k(2) by blast
qed

theorem sign_and_rebundle_macos_order_witness:
  "trace (snd (sign_and_rebundle_macos (quiet_ext True False)
       [''build'', ''CodeWhisperer.app''] [''build'', ''CodeWhisperer.dmg'']
       sample_signing empty_world)) =
     [SignFile [''build'', ''CodeWhisperer.app''] APP sample_signing,
      NotarizeFile [''build'', ''CodeWhisperer.app''] sample_signing,
      RebundleDmg [''build'', ''CodeWhisperer.app''] [''build'', ''CodeWhisperer.dmg''],
      SignFile [''build'', ''CodeWhisperer.dmg''] DMG sample_signing,
      NotarizeFile [''build'', ''CodeWhisperer.dmg''] sample_signing]"
proof -
  let ?run = "sign_and_rebundle_macos (quiet_ext True False)
       [''build'', ''CodeWhisperer.app''] [''build'', ''CodeWhisperer.dmg'']
       sample_signing empty_world"
  have fin: "fst ?run = Inr ()"
    by (simp add: sign_and_rebundle_macos_def thn_def bnd_def ok_def sign_file_def
        notarize_file_def rebundle_dmg_def quiet_ext_def)
  have "?run = (fst ?run, snd ?run)" by simp
  from sign_and_rebundle_macos_order[OF this] fin
  show ?thesis by (auto simp: empty_world_def)
qed

subsection \<open>An unsupported platform\<close>

text \<open>
  C10. On a platform that is neither macOS nor Linux, \<open>build_cargo_bin\<close> raises
  ValueError("Unsupported platform") and the world is the one it started in: no external
  command has been run and no file written.
\<close>

theorem build_cargo_bin_unsupported_platform:
  assumes "\<not> IS_DARWIN x" and "\<not> IS_LINUX x"
  shows "build_cargo_bin x package output_name features w
           = (Inl (ValueError ''Unsupported platform''), w)"
  using assms by (simp add: build_cargo_bin_def throw_def)

theorem build_cargo_bin_unsupported_platform_witness:
  "build_cargo_bin (quiet_ext False False) ''cw_cli'' (Some ''cw'') None empty_world
     = (Inl (ValueError ''Unsupported platform''), empty_world)"
  using build_cargo_bin_unsupported_platform [of "quiet_ext False False" "''cw_cli''" "Some ''cw''" None empty_world]
  by (simp add: quiet_ext_def)

subsection \<open>What a stage may add to the record\<close>

lemma emitsI: "(\<And>w. \<exists>evs. trace (snd (m w)) = trace w @ evs \<and> list_all Q evs) \<Longrightarrow> emits Q m"
  by (simp add: emits_def)

lemma emitsD: "emits Q m \<Longrightarrow> m w = (r, w') \<Longrightarrow> \<exists>evs. trace w' = trace w @ evs \<and> list_all Q evs"
  by (auto simp: emits_def dest: spec[of _ w])

lemma emits_silent: "(\<And>w. trace (snd (m w)) = trace w) \<Longrightarrow> emits Q m"
  by (simp add: emits_def)

lemma emits_ok [simp]: "emits Q (ok a)" by (simp add: emits_def ok_def)
lemma emits_throw [simp]: "emits Q (throw e)" by (simp add: emits_def throw_def)
lemma emits_lift [simp]: "emits Q (lift r)" by (simp add: emits_def lift_def)

lemma emits_bnd:
  assumes "emits Q m" and "\<And>a. emits Q (k a)"
  shows "emits Q (bnd m k)"
proof (rule emitsI)
  fix w
  obtain r w1 where m: "m w = (r, w1)" by (cases "m w")
  from emitsD[OF assms(1) m] obtain e1 where e1: "trace w1 = trace w @ e1" "list_all Q e1" by blast
  show "\<exists>evs. trace (snd (bnd m k w)) = trace w @ evs \<and> list_all Q evs"
  proof (cases r)
    case (Inl e)
    then show ?thesis using m e1 by (auto simp: bnd_def)
  next
    case (Inr a)
    obtain r2 w2 where k: "k a w1 = (r2, w2)" by (cases "k a w1")
    from emitsD[OF assms(2) k] obtain e2 where "trace w2 = trace w1 @ e2" "list_all Q e2" by blast
    then show ?thesis using m e1 k Inr by (intro exI[of _ "e1 @ e2"]) (simp add: bnd_def)
  qed
qed

lemma emits_thn: "emits Q m \<Longrightarrow> emits Q k \<Longrightarrow> emits Q (thn m k)"
  unfolding thn_def by (rule emits_bnd)

lemma emits_seq: "(\<And>m. m \<in> set ms \<Longrightarrow> emits Q m) \<Longrightarrow> emits Q (seq ms)"
  by (induction ms) (auto intro: emits_thn)

lemma emits_mkdir_parents [simp]: "emits Q (mkdir_parents p)"
  by (rule emits_silent) (simp add: mkdir_parents_def)
lemma emits_write_text [simp]: "emits Q (write_text p c)"
  by (rule emits_silent) (simp add: write_text_def)
lemma emits_unlink [simp]: "emits Q (unlink_missing_ok p)"
  by (rule emits_silent) (simp add: unlink_missing_ok_def)
lemma emits_rmtree [simp]: "emits Q (rmtree_ignore_errors p)"
  by (rule emits_silent) (simp add: rmtree_ignore_errors_def)
lemma emits_copytree [simp]: "emits Q (copytree s d b)"
  by (rule emits_silent) (simp add: copytree_def)
lemma emits_copy2 [simp]: "emits Q (copy2 s d)"
  by (rule emits_silent) (simp add: copy2_def Let_def split: option.splits node.splits)

lemma emits_run_cmd: "Q (RunCmd c) \<Longrightarrow> emits Q (run_cmd x c)"
  by (rule emitsI) (simp add: run_cmd_def split: prod.splits)
lemma emits_run_cmd_output: "Q (RunCmdOutput c) \<Longrightarrow> emits Q (run_cmd_output x c)"
  by (rule emitsI) (simp add: run_cmd_output_def split: prod.splits)
lemma emits_sign_file: "Q (SignFile p t sd) \<Longrightarrow> emits Q (sign_file x p t sd)"
  by (rule emitsI) (simp add: sign_file_def split: prod.splits)
lemma emits_notarize_file: "Q (NotarizeFile p sd) \<Longrightarrow> emits Q (notarize_file x p sd)"
  by (rule emitsI) (simp add: notarize_file_def split: prod.splits)
lemma emits_rebundle_dmg: "Q (RebundleDmg a d) \<Longrightarrow> emits Q (rebundle_dmg x a d)"
  by (rule emitsI) (simp add: rebundle_dmg_def split: prod.splits)

lemma emits_cmd_run_cmd [simp]: "emits is_cmd (run_cmd x c)"
  by (rule emits_run_cmd) (simp add: is_cmd_def)
lemma emits_cmd_run_cmd_output [simp]: "emits is_cmd (run_cmd_output x c)"
  by (rule emits_run_cmd_output) (simp add: is_cmd_def)

lemmas emits_intros = emits_bnd emits_thn emits_seq

lemma emits_build_npm_packages: "emits is_cmd (build_npm_packages x)"
  unfolding build_npm_packages_def Let_def
  by (intro emits_thn emits_seq) auto

lemma emits_build_cargo_bin: "emits is_cmd (build_cargo_bin x p out fe)"
  unfolding build_cargo_bin_def Let_def
  by (auto intro!: emits_thn)

lemma emits_run_cargo_tests: "emits is_cmd (run_cargo_tests x fe)"
  unfolding run_cargo_tests_def by simp

lemma emits_version: "emits is_cmd (version x)"
  unfolding version_def by (intro emits_bnd) auto

lemma emits_gen_manifest: "emits is_cmd (gen_manifest x)"
  unfolding gen_manifest_def by (intro emits_bnd emits_version) auto

lemma emits_build_macos_ime_None: "emits is_cmd (build_macos_ime x None)"
  unfolding build_macos_ime_def Let_def
  by (intro emits_bnd emits_thn emits_seq emits_build_cargo_bin) auto

lemma emits_patch_info_plist: "emits is_cmd (patch_info_plist x p)"
  unfolding patch_info_plist_def by (intro emits_seq) auto

lemma emits_build_desktop_app_None:
  "emits is_cmd (build_desktop_app x cwterm cw npm None fe)"
  unfolding build_desktop_app_def Let_def
  by (intro emits_bnd emits_thn emits_seq emits_build_macos_ime_None)
     (auto intro!: emits_bnd emits_seq emits_gen_manifest emits_patch_info_plist)

lemma emits_generate_sha: "emits is_cmd (generate_sha x p)"
  unfolding generate_sha_def Let_def
  by (intro emits_bnd emits_thn) auto

lemma emits_upload: "emits is_cmd (upload x args ps)"
  unfolding upload_def Let_def
  by (auto intro!: emits_bnd emits_seq)


lemma emits_any_build_macos_ime: "emits any_event (build_macos_ime x sd)"
  unfolding build_macos_ime_def Let_def
  by (intro emits_bnd emits_thn emits_seq)
     (auto simp: any_event_def split: option.splits
           intro!: emits_seq emits_run_cmd emits_sign_file emits_notarize_file
                   emits_thn emits_bnd
           simp: build_cargo_bin_def Let_def)

lemma emits_any_sign_and_rebundle_macos: "emits any_event (sign_and_rebundle_macos x a d sd)"
  unfolding sign_and_rebundle_macos_def
  by (intro emits_seq)
     (auto simp: any_event_def intro!: emits_sign_file emits_notarize_file emits_rebundle_dmg)

lemma emits_weaken: "emits Q m \<Longrightarrow> (\<And>e. Q e \<Longrightarrow> Q' e) \<Longrightarrow> emits Q' m"
  unfolding emits_def by (metis (mono_tags, lifting) list_all_iff)

lemma emits_any: "emits is_cmd m \<Longrightarrow> emits any_event m"
  by (erule emits_weaken) (simp add: any_event_def)

lemma emits_any_build_desktop_app:
  "emits any_event (build_desktop_app x cwterm cw npm sd fe)"
  unfolding build_desktop_app_def Let_def
  by (intro emits_bnd emits_thn emits_seq emits_any_build_macos_ime)
     (auto split: option.splits
           intro!: emits_any_sign_and_rebundle_macos emits_any[OF emits_patch_info_plist]
                   emits_bnd emits_seq emits_any[OF emits_gen_manifest]
                   emits_any[OF emits_cmd_run_cmd])

lemma emits_any_package_and_publish:
  "emits any_event (package_and_publish x args sd fe npm cw term)"
  unfolding package_and_publish_def
  by (auto intro!: emits_bnd emits_any_build_desktop_app emits_any[OF emits_generate_sha]
                   emits_any[OF emits_upload])

lemma emits_any_after_tests:
  "emits any_event
     (bnd (build_cargo_bin x ''cw_cli'' (Some ''cw'') fe) (\<lambda>cw_cli_path.
      bnd (build_cargo_bin x ''figterm'' (Some ''cwterm'') fe) (\<lambda>cwterm_path.
      package_and_publish x args sd fe npm cw_cli_path cwterm_path)))"
  by (intro emits_bnd emits_any[OF emits_build_cargo_bin] emits_any_package_and_publish)

lemma emits_none_nil:
  assumes "emits (\<lambda>e. False) m" and "m w = (r, w')"
  shows "trace w' = trace w"
proof -
  from emitsD[OF assms] obtain evs where "trace w' = trace w @ evs" "list_all (\<lambda>e. False) evs"
    by blast
  then show ?thesis by (cases evs) simp_all
qed

lemma run_cmd_result:
  assumes "run_cmd x c w = (r, w')"
  shows "trace w' = trace w @ [RunCmd c]"
    and "r = (if fst (exec x c (fs w)) then Inr () else Inl (CalledProcessError (argv c)))"
    and "fs w' = snd (exec x c (fs w))"
  using assms by (auto simp: run_cmd_def split: prod.splits)

lemma world_update_all: "(w::world)\<lparr>fs := f, trace := t\<rparr> = \<lparr>fs = f, trace = t\<rparr>"
  by (cases w) simp

lemmas step_defs = bnd_def thn_def ok_def throw_def lift_def run_cmd_def run_cmd_output_def
  sign_file_def notarize_file_def rebundle_dmg_def mkdir_parents_def write_text_def
  unlink_missing_ok_def rmtree_ignore_errors_def copytree_def copy2_def is_dir_def is_file_def
  with_dirs_def without_tree_def with_tree_def Let_def

lemmas pipeline_defs = pipeline_def run_stages_def parse_signing_data_def parse_features_def n_def
      build_npm_packages_def run_cargo_tests_def build_cargo_bin_def package_and_publish_def
      upload_def OUTDIR_def name_or_def

lemma pipeline_start:
  "pipeline x build_args w =
     (case parse_signing_data x build_args of
        Inl e \<Rightarrow> (Inl e, w)
      | Inr sd \<Rightarrow>
         (case mkdir_parents OUTDIR w of
            (Inl e, w1) \<Rightarrow> (Inl e, w1)
          | (Inr u, w1) \<Rightarrow> run_stages x build_args sd (parse_features x build_args) w1))"
  by (simp add: pipeline_def bnd_def thn_def lift_def split: sum.splits prod.splits)

lemma build_npm_packages_trace:
  assumes "build_npm_packages x w = (r, w')"
  shows "\<exists>k\<le>2. trace w' = trace w @ take k [pnpm_install, pnpm_build]
           \<and> ((\<exists>a. r = Inr a) \<longrightarrow> k = 2)"
proof -
  let ?files = "seq [rmtree_ignore_errors (OUTDIR @ [''dashboard'']),
                     copytree [''apps'', ''dashboard'', ''dist''] (OUTDIR @ [''dashboard'']) False,
                     rmtree_ignore_errors (OUTDIR @ [''autocomplete'']),
                     copytree [''apps'', ''autocomplete'', ''dist''] (OUTDIR @ [''autocomplete'']) False]"
  let ?res = "ok [(''dashboard'', OUTDIR @ [''dashboard'']), (''autocomplete'', OUTDIR @ [''autocomplete''])]"
  have silent: "emits (\<lambda>e. False) (thn ?files ?res)"
    by (intro emits_thn emits_seq) auto
  have shape: "build_npm_packages x =
      bnd (run_cmd x (plain [''pnpm'', ''install'', ''--frozen-lockfile''])) (\<lambda>_.
      bnd (run_cmd x (plain [''pnpm'', ''build''])) (\<lambda>_. thn ?files ?res))"
    by (rule ext) (simp add: build_npm_packages_def Let_def thn_def bnd_def split: prod.splits sum.splits)
  from assms[unfolded shape] show ?thesis
  proof (cases rule: bnd_cases)
    case (failed e)
    from run_cmd_result(1)[OF failed(1)] failed(2) show ?thesis
      by (intro exI[of _ 1]) (simp add: pnpm_install_def)
  next
    case (passed a w1)
    note t1 = run_cmd_result(1)[OF passed(1)]
    from passed(2) show ?thesis
    proof (cases rule: bnd_cases)
      case (failed e)
      from run_cmd_result(1)[OF failed(1)] failed(2) t1 show ?thesis
        by (intro exI[of _ 2]) (simp add: pnpm_install_def pnpm_build_def)
    next
      case (passed b w2)
      from run_cmd_result(1)[OF passed(1)] emits_none_nil[OF silent passed(2)] t1 show ?thesis
        by (intro exI[of _ 2]) (simp add: pnpm_install_def pnpm_build_def)
    qed
  qed
qed

subsection \<open>The output directory at the start of a run\<close>

text \<open>
  C9 (as amended). The script starts with \<open>OUTDIR.mkdir(parents=True, exist_ok=True)\<close>: the
  output directory is made when it is missing and accepted as it is when it exists. Nothing
  is removed: every entry present before the run is unchanged when the first stage begins,
  and the only path that can change at all is the directory itself. The step raises
  exactly when \<open>build\<close> is a file. The stages then start in the world it leaves.
\<close>

theorem outdir_created_and_kept:
  assumes "mkdir_parents OUTDIR w = (r, w')"
  shows "trace w' = trace w \<and> (\<forall>q. q \<noteq> OUTDIR \<longrightarrow> fs w' q = fs w q)
     \<and> (r = Inr () \<longrightarrow> fs w' OUTDIR = Some Dir \<and> (\<forall>q. fs w q \<noteq> None \<longrightarrow> fs w' q = fs w q))
     \<and> (r \<noteq> Inr () \<longrightarrow> w' = w \<and> is_file (fs w) OUTDIR)
     \<and> (\<forall>sd. parse_signing_data x build_args = Inr sd \<longrightarrow> r = Inr () \<longrightarrow>
           pipeline x build_args w
             = run_stages x build_args sd (parse_features x build_args) w')"
proof -
  have files: "trace w' = trace w \<and> (\<forall>q. q \<noteq> OUTDIR \<longrightarrow> fs w' q = fs w q)
     \<and> (r = Inr () \<longrightarrow> fs w' OUTDIR = Some Dir \<and> (\<forall>q. fs w q \<noteq> None \<longrightarrow> fs w' q = fs w q))
     \<and> (r \<noteq> Inr () \<longrightarrow> w' = w \<and> is_file (fs w) OUTDIR)"
    using assms
    by (auto simp: mkdir_parents_def with_dirs_def OUTDIR_def is_file_def prefix_Cons
             split: if_splits option.splits node.splits list.splits)
  have stages: "\<forall>sd. parse_signing_data x build_args = Inr sd \<longrightarrow> r = Inr () \<longrightarrow>
           pipeline x build_args w
             = run_stages x build_args sd (parse_features x build_args) w'"
    using assms by (simp add: pipeline_start)
  from files stages show ?thesis by blast
qed

theorem outdir_created_and_kept_witness:
  "fs (snd (mkdir_parents OUTDIR empty_world)) OUTDIR = Some Dir
   \<and> trace (snd (mkdir_parents OUTDIR empty_world)) = []
   \<and> pipeline (quiet_ext False True) Map.empty empty_world
       = run_stages (quiet_ext False True) Map.empty None None
           (snd (mkdir_parents OUTDIR empty_world))"
proof -
  have r: "fst (mkdir_parents OUTDIR empty_world) = Inr ()"
    by (simp add: mkdir_parents_def OUTDIR_def empty_world_def is_file_def)
  have d: "fs (snd (mkdir_parents OUTDIR empty_world)) OUTDIR = Some Dir"
    by (simp add: mkdir_parents_def with_dirs_def OUTDIR_def empty_world_def is_file_def)
  have p: "parse_signing_data (quiet_ext False True) Map.empty = Inr None"
    by (simp add: parse_signing_data_def n_def quiet_ext_def)
  have fe: "parse_features (quiet_ext False True) Map.empty = None"
    by (simp add: parse_features_def n_def quiet_ext_def)
  have "mkdir_parents OUTDIR empty_world
          = (fst (mkdir_parents OUTDIR empty_world), snd (mkdir_parents OUTDIR empty_world))"
    by simp
  from outdir_created_and_kept[OF this, of "quiet_ext False True" Map.empty] r p fe
  show ?thesis by (simp add: empty_world_def)
qed

text \<open>The claim as stated fails: a file left in the output directory by an earlier run
  is still there when the stages begin.\<close>

theorem outdir_not_cleared:
  "fs asset_world [''build'', ''stale.txt''] = Some (File (Text ''stale''))
   \<and> fst (mkdir_parents OUTDIR asset_world) = Inr ()
   \<and> fs (snd (mkdir_parents OUTDIR asset_world)) [''build'', ''stale.txt'']
       = Some (File (Text ''stale''))
   \<and> pipeline (quiet_ext False True) Map.empty asset_world
       = run_stages (quiet_ext False True) Map.empty None None
           (snd (mkdir_parents OUTDIR asset_world))"
  by (simp add: pipeline_start parse_signing_data_def parse_features_def n_def quiet_ext_def
      mkdir_parents_def with_dirs_def OUTDIR_def asset_world_def is_file_def split: prod.splits)

subsection \<open>The test suite and the compilation\<close>

text \<open>
  C3 (as amended). The script builds the frontend assets, then runs the test suite, and
  only then compiles: the invocations of a run are an initial part of \<open>pnpm install\<close>,
  \<open>pnpm build\<close>, \<open>cargo test\<close>, or begin with these three, so every \<open>cargo build\<close> comes
  after the test suite. When the test suite fails the run ends there with its error:
  the record holds these three invocations and no other, so nothing has been compiled,
  packaged, signed, checksummed or uploaded, and the files are those the asset stage and
  the test suite left, the asset stage's copies under the output directory among them.
\<close>

theorem test_gate_precedes_compilation:
  assumes run: "pipeline x build_args w = (r, w')"
  shows "(\<exists>evs. trace w' = trace w @ evs
            \<and> (prefix evs (gate_events x build_args) \<or> prefix (gate_events x build_args) evs))
       \<and> (\<forall>sd npm w1 f2.
            parse_signing_data x build_args = Inr sd \<longrightarrow>
            thn (mkdir_parents OUTDIR) (build_npm_packages x) w = (Inr npm, w1) \<longrightarrow>
            exec x (cargo_test_cmd x (parse_features x build_args)) (fs w1) = (False, f2) \<longrightarrow>
            r = Inl (CalledProcessError (argv (cargo_test_cmd x (parse_features x build_args))))
            \<and> w' = \<lparr>fs = f2, trace = trace w @ gate_events x build_args\<rparr>)"
proof (intro conjI allI impI)
  let ?G = "gate_events x build_args"
  let ?fe = "parse_features x build_args"
  show "\<exists>evs. trace w' = trace w @ evs \<and> (prefix evs ?G \<or> prefix ?G evs)"
  proof (cases "parse_signing_data x build_args")
    case (Inl e)
    with run have "w' = w" by (simp add: pipeline_start)
    then show ?thesis by (intro exI[of _ "[]"]) simp
  next
    case (Inr sd)
    obtain r0 w0 where mk: "mkdir_parents OUTDIR w = (r0, w0)" by (cases "mkdir_parents OUTDIR w")
    have t0: "trace w0 = trace w" using mk by (auto simp: mkdir_parents_def split: if_splits)
    show ?thesis
    proof (cases r0)
      case (Inl e)
      with run Inr mk have "w' = w0" by (simp add: pipeline_start)
      then show ?thesis using t0 by (intro exI[of _ "[]"]) simp
    next
      case u: (Inr u)
      with run Inr mk have rs: "run_stages x build_args sd ?fe w0 = (r, w')"
        by (simp add: pipeline_start)
      from rs[unfolded run_stages_def] show ?thesis
      proof (cases rule: bnd_cases)
        case (failed e)
        from build_npm_packages_trace[OF failed(1)] obtain k where
          "k \<le> 2" "trace w' = trace w0 @ take k [pnpm_install, pnpm_build]" by blast
        then have "prefix (take k [pnpm_install, pnpm_build]) ?G"
          by (cases k; cases "k - 1") (auto simp: gate_events_def)
        then show ?thesis using \<open>trace w' = _\<close> t0 by auto
      next
        case (passed npm w1)
        from build_npm_packages_trace[OF passed(1)]
        have t1: "trace w1 = trace w @ [pnpm_install, pnpm_build]" using t0 by auto
        from passed(2) show ?thesis
        proof (cases rule: thn_cases)
          case (failed e)
          from run_cmd_result(1)[OF failed(1)[unfolded run_cargo_tests_def]] t1
          have "trace w' = trace w @ ?G" by (simp add: gate_events_def)
          then show ?thesis by auto
        next
          case (passed w2)
          from run_cmd_result(1)[OF passed(1)[unfolded run_cargo_tests_def]] t1
          have t2: "trace w2 = trace w @ ?G" by (simp add: gate_events_def)
          from emitsD[OF emits_any_after_tests passed(2)] obtain more where
            "trace w' = trace w2 @ more" by blast
          then show ?thesis using t2 by (intro exI[of _ "?G @ more"]) simp
        qed
      qed
    qed
  qed
next
  fix sd npm w1 f2
  let ?fe = "parse_features x build_args"
  assume p: "parse_signing_data x build_args = Inr sd"
    and a: "thn (mkdir_parents OUTDIR) (build_npm_packages x) w = (Inr npm, w1)"
    and t: "exec x (cargo_test_cmd x ?fe) (fs w1) = (False, f2)"
  from a obtain w0 where mk: "mkdir_parents OUTDIR w = (Inr (), w0)"
    and np: "build_npm_packages x w0 = (Inr npm, w1)"
    by (cases rule: thn_cases) auto
  have t0: "trace w0 = trace w" using mk by (auto simp: mkdir_parents_def split: if_splits)
  from build_npm_packages_trace[OF np]
  have t1: "trace w1 = trace w @ [pnpm_install, pnpm_build]" using t0 by auto
  have "pipeline x build_args w =
          (Inl (CalledProcessError (argv (cargo_test_cmd x ?fe))),
           w1\<lparr>fs := f2, trace := trace w1 @ [RunCmd (cargo_test_cmd x ?fe)]\<rparr>)"
    using p mk np t
    by (simp add: pipeline_start run_stages_def bnd_def thn_def run_cargo_tests_def run_cmd_def)
  with run t1
  show "r = Inl (CalledProcessError (argv (cargo_test_cmd x ?fe)))"
    and "w' = \<lparr>fs = f2, trace = trace w @ gate_events x build_args\<rparr>"
    by (auto simp add: gate_events_def world_update_all)
qed

theorem test_gate_precedes_compilation_witness:
  "fst (pipeline (red_tests (quiet_ext False True)) Map.empty asset_world)
     = Inl (CalledProcessError [''cargo'', ''test'', ''--release'', ''--locked''])
   \<and> trace (snd (pipeline (red_tests (quiet_ext False True)) Map.empty asset_world))
     = [pnpm_install, pnpm_build,
        RunCmd (cargo_test_cmd (red_tests (quiet_ext False True)) None)]"
proof -
  let ?x = "red_tests (quiet_ext False True)"
  let ?m = "thn (mkdir_parents OUTDIR) (build_npm_packages ?x) asset_world"
  have p: "parse_signing_data ?x Map.empty = Inr None"
    by (simp add: parse_signing_data_def n_def red_tests_def quiet_ext_def)
  have fe: "parse_features ?x Map.empty = None"
    by (simp add: parse_features_def n_def red_tests_def quiet_ext_def)
  have "fst ?m = Inr [(''dashboard'', [''build'', ''dashboard'']), (''autocomplete'', [''build'', ''autocomplete''])]"
    by (simp add: build_npm_packages_def OUTDIR_def red_tests_def quiet_ext_def asset_world_def
        plain_def step_defs)
  then have a: "?m = (Inr [(''dashboard'', [''build'', ''dashboard'']), (''autocomplete'', [''build'', ''autocomplete''])], snd ?m)"
    by (simp add: prod_eq_iff)
  have t: "exec ?x (cargo_test_cmd ?x (parse_features ?x Map.empty)) (fs (snd ?m)) = (False, fs (snd ?m))"
    by (simp add: fe red_tests_def cargo_test_cmd_def features_args_def)
  have "pipeline ?x Map.empty asset_world
        = (fst (pipeline ?x Map.empty asset_world), snd (pipeline ?x Map.empty asset_world))"
    by simp
  from test_gate_precedes_compilation[OF this, THEN conjunct2, rule_format, OF p a t]
  show ?thesis by (simp add: fe gate_events_def asset_world_def cargo_test_cmd_def features_args_def)
qed

text \<open>The claim as stated fails twice. In a run that succeeds both stages execute and no
  compilation stands before the test suite; in a run whose test suite fails the output
  directory already holds the frontend assets.\<close>

theorem compilation_not_before_test_gate:
  "fst (pipeline (quiet_ext False True) Map.empty asset_world) = Inr ()
   \<and> list_ex is_compilation (trace (snd (pipeline (quiet_ext False True) Map.empty asset_world)))
   \<and> list_ex is_test_gate (trace (snd (pipeline (quiet_ext False True) Map.empty asset_world)))
   \<and> \<not> comes_before is_compilation is_test_gate
         (trace (snd (pipeline (quiet_ext False True) Map.empty asset_world)))
   \<and> fst (pipeline (red_tests (quiet_ext False True)) Map.empty asset_world)
       = Inl (CalledProcessError [''cargo'', ''test'', ''--release'', ''--locked''])
   \<and> fs (snd (pipeline (red_tests (quiet_ext False True)) Map.empty asset_world))
        [''build'', ''dashboard'', ''index.html''] = Some (File (Text ''dashboard''))"
proof -
  have tr: "trace (snd (pipeline (quiet_ext False True) Map.empty asset_world)) =
     [pnpm_install, pnpm_build, RunCmd (cargo_test_cmd (quiet_ext False True) None),
      RunCmd (cargo_build_cmd (quiet_ext False True) ''cw_cli'' [''x86_64-unknown-linux-gnu''] None),
      RunCmd (cargo_build_cmd (quiet_ext False True) ''figterm'' [''x86_64-unknown-linux-gnu''] None)]"
    by (simp add: pipeline_defs quiet_ext_def asset_world_def step_defs pnpm_install_def pnpm_build_def)
  have ok: "fst (pipeline (quiet_ext False True) Map.empty asset_world) = Inr ()"
    by (simp add: pipeline_defs quiet_ext_def asset_world_def step_defs)
  have order: "list_ex is_compilation (trace (snd (pipeline (quiet_ext False True) Map.empty asset_world)))"
    "list_ex is_test_gate (trace (snd (pipeline (quiet_ext False True) Map.empty asset_world)))"
    "\<not> comes_before is_compilation is_test_gate
         (trace (snd (pipeline (quiet_ext False True) Map.empty asset_world)))"
    unfolding tr
    by (simp_all add: is_compilation_def is_test_gate_def pnpm_install_def pnpm_build_def plain_def
        cargo_test_cmd_def cargo_build_cmd_def)
  have red: "fst (pipeline (red_tests (quiet_ext False True)) Map.empty asset_world)
       = Inl (CalledProcessError [''cargo'', ''test'', ''--release'', ''--locked''])"
    "fs (snd (pipeline (red_tests (quiet_ext False True)) Map.empty asset_world))
        [''build'', ''dashboard'', ''index.html''] = Some (File (Text ''dashboard''))"
    by (simp_all add: pipeline_defs red_tests_def quiet_ext_def asset_world_def step_defs
        plain_def cargo_test_cmd_def features_args_def)
  show ?thesis using ok order red by simp
qed

subsection \<open>The compilation driver\<close>



subsection \<open>The publisher\<close>

lemma generate_sha_ok:
  assumes "generate_sha x p w = (Inr sha_path, w1)"
  shows "sha_path = butlast p @ [last p @ ''.sha256'']"
    and "trace w1 = trace w @ [RunCmdOutput (shasum_cmd p)]"
    and "\<exists>out f1. exec_output x (shasum_cmd p) (fs w) = (Some out, f1)
          \<and> fs w1 = f1(sha_path \<mapsto> File (Text (takeWhile (\<lambda>c. c \<noteq> CHR '' '') out)))"
  using assms
  by (auto simp: generate_sha_def bnd_def thn_def ok_def lift_def run_cmd_output_def write_text_def
      with_name_def Let_def split: prod.splits sum.splits option.splits if_splits)

lemma first_field: "CHR '' '' \<notin> set digest \<Longrightarrow>
   takeWhile (\<lambda>c. c \<noteq> CHR '' '') (digest @ '' '' @ rest) = digest"
  by (induction digest) auto

lemma upload_events:
  assumes "n x build_args ''output_bucket''" and "build_args ''output_bucket'' = Some b"
    and "upload x build_args [p, q] w = (r, w')"
  shows "\<exists>evs. trace w' = trace w @ evs \<and> evs \<noteq> []
           \<and> prefix evs [RunCmd (upload_cmd p (''s3://'' @ py_str x b @ ''/staging/'')),
                          RunCmd (upload_cmd q (''s3://'' @ py_str x b @ ''/staging/''))]
           \<and> (r = Inr () \<longrightarrow>
                 evs = [RunCmd (upload_cmd p (''s3://'' @ py_str x b @ ''/staging/'')),
                        RunCmd (upload_cmd q (''s3://'' @ py_str x b @ ''/staging/''))])"
proof -
  let ?loc = "''s3://'' @ py_str x b @ ''/staging/''"
  let ?es = "[RunCmd (upload_cmd p ?loc), RunCmd (upload_cmd q ?loc)]"
  have s: "seq [run_cmd x (upload_cmd p ?loc), run_cmd x (upload_cmd q ?loc)] w = (r, w')"
    using assms by (simp add: upload_def index_def bnd_def lift_def Let_def upload_cmd_def)
  have "list_all2 (\<lambda>m e. \<forall>w. trace (snd (m w)) = trace w @ [e])
          [run_cmd x (upload_cmd p ?loc), run_cmd x (upload_cmd q ?loc)] ?es"
    by (simp add: run_cmd_trace)
  from seq_single_events[OF this s]
  obtain k where k: "k \<le> length ?es" "trace w' = trace w @ take k ?es"
    "r = Inr () \<longrightarrow> k = length ?es" "0 < k" by auto
  have "take k ?es \<noteq> []" using k(4) by (cases k) simp_all
  moreover have "prefix (take k ?es) ?es" by (rule take_is_prefix)
  moreover have "r = Inr () \<longrightarrow> take k ?es = ?es" using k(3) by simp
  ultimately show ?thesis using k(2) by blast
qed

text \<open>
  C5 (as amended). On macOS the publisher handles the disk image: \<open>generate_sha\<close> runs
  \<open>shasum -a 256\<close> on it and writes the first space-delimited field of the output, which
  is the digest, to the file beside it whose name is the image's name followed by
  \<open>.sha256\<close>; when an output bucket is configured the image and then the sidecar are
  uploaded to \<open>s3://<bucket>/staging/\<close>, and nothing is uploaded otherwise. On Linux
  no digest is computed and no sidecar written: when an output bucket is configured the
  two binaries are uploaded on their own.
\<close>

theorem digest_sidecar_and_upload:
  assumes sha: "generate_sha x p w = (Inr sha_path, w1)"
  shows "sha_path = butlast p @ [last p @ ''.sha256'']
     \<and> trace w1 = trace w @ [RunCmdOutput (shasum_cmd p)]
     \<and> (\<exists>out f1. exec_output x (shasum_cmd p) (fs w) = (Some out, f1)
          \<and> fs w1 = f1(sha_path \<mapsto> File (Text (takeWhile (\<lambda>c. c \<noteq> CHR '' '') out)))
          \<and> (\<forall>digest rest. out = digest @ '' '' @ rest \<longrightarrow> CHR '' '' \<notin> set digest \<longrightarrow>
                fs w1 sha_path = Some (File (Text digest))))
     \<and> (\<forall>b r w2. n x build_args ''output_bucket'' \<longrightarrow> build_args ''output_bucket'' = Some b \<longrightarrow>
           upload x build_args [p, sha_path] w1 = (r, w2) \<longrightarrow>
           (\<exists>evs. trace w2 = trace w1 @ evs \<and> evs \<noteq> []
              \<and> prefix evs [RunCmd (upload_cmd p (''s3://'' @ py_str x b @ ''/staging/'')),
                             RunCmd (upload_cmd sha_path (''s3://'' @ py_str x b @ ''/staging/''))]
              \<and> (r = Inr () \<longrightarrow>
                    evs = [RunCmd (upload_cmd p (''s3://'' @ py_str x b @ ''/staging/'')),
                           RunCmd (upload_cmd sha_path (''s3://'' @ py_str x b @ ''/staging/''))])))
     \<and> (\<not> n x build_args ''output_bucket'' \<longrightarrow>
           upload x build_args [p, sha_path] w1 = (Inr (), w1))
     \<and> (IS_DARWIN x \<longrightarrow>
           package_and_publish x build_args sd fe npm cw term
             = bnd (build_desktop_app x term cw npm sd fe) (\<lambda>dmg_path.
               bnd (generate_sha x dmg_path) (\<lambda>sha_path.
               upload x build_args [dmg_path, sha_path])))
     \<and> (\<not> IS_DARWIN x \<and> IS_LINUX x \<longrightarrow>
           package_and_publish x build_args sd fe npm cw term = upload x build_args [cw, term])"
proof -
  note g = generate_sha_ok[OF sha]
  from g(3) obtain out f1 where o: "exec_output x (shasum_cmd p) (fs w) = (Some out, f1)"
    "fs w1 = f1(sha_path \<mapsto> File (Text (takeWhile (\<lambda>c. c \<noteq> CHR '' '') out)))" by blast
  have d: "\<forall>digest rest. out = digest @ '' '' @ rest \<longrightarrow> CHR '' '' \<notin> set digest \<longrightarrow>
                fs w1 sha_path = Some (File (Text digest))"
    using o(2) first_field by auto
  have u: "\<forall>b r w2. n x build_args ''output_bucket'' \<longrightarrow> build_args ''output_bucket'' = Some b \<longrightarrow>
           upload x build_args [p, sha_path] w1 = (r, w2) \<longrightarrow>
           (\<exists>evs. trace w2 = trace w1 @ evs \<and> evs \<noteq> []
              \<and> prefix evs [RunCmd (upload_cmd p (''s3://'' @ py_str x b @ ''/staging/'')),
                             RunCmd (upload_cmd sha_path (''s3://'' @ py_str x b @ ''/staging/''))]
              \<and> (r = Inr () \<longrightarrow>
                    evs = [RunCmd (upload_cmd p (''s3://'' @ py_str x b @ ''/staging/'')),
                           RunCmd (upload_cmd sha_path (''s3://'' @ py_str x b @ ''/staging/''))]))"
    using upload_events by blast
  have nb: "\<not> n x build_args ''output_bucket'' \<longrightarrow>
           upload x build_args [p, sha_path] w1 = (Inr (), w1)"
    by (simp add: upload_def ok_def)
  have pk: "IS_DARWIN x \<longrightarrow>
           package_and_publish x build_args sd fe npm cw term
             = bnd (build_desktop_app x term cw npm sd fe) (\<lambda>dmg_path.
               bnd (generate_sha x dmg_path) (\<lambda>sha_path.
               upload x build_args [dmg_path, sha_path]))"
    "\<not> IS_DARWIN x \<and> IS_LINUX x \<longrightarrow>
           package_and_publish x build_args sd fe npm cw term = upload x build_args [cw, term]"
    by (simp_all add: package_and_publish_def)
  from g(1,2) o(1,2) d u nb pk show ?thesis by blast
qed

theorem digest_sidecar_and_upload_witness:
  "fst (generate_sha sha_ext [''build'', ''CodeWhisperer.dmg''] dmg_world)
      = Inr [''build'', ''CodeWhisperer.dmg.sha256'']
   \<and> fs (snd (generate_sha sha_ext [''build'', ''CodeWhisperer.dmg''] dmg_world))
        [''build'', ''CodeWhisperer.dmg.sha256''] = Some (File (Text ''0f343b09''))
   \<and> trace (snd (upload sha_ext bucket_args
                    [[''build'', ''CodeWhisperer.dmg''], [''build'', ''CodeWhisperer.dmg.sha256'']]
                    (snd (generate_sha sha_ext [''build'', ''CodeWhisperer.dmg''] dmg_world))))
      = [RunCmdOutput (shasum_cmd [''build'', ''CodeWhisperer.dmg'']),
         RunCmd (upload_cmd [''build'', ''CodeWhisperer.dmg''] ''s3://bkt/staging/''),
         RunCmd (upload_cmd [''build'', ''CodeWhisperer.dmg.sha256''] ''s3://bkt/staging/'')]"
proof -
  let ?p = "[''build'', ''CodeWhisperer.dmg'']"
  let ?s = "[''build'', ''CodeWhisperer.dmg.sha256'']"
  let ?g = "generate_sha sha_ext ?p dmg_world"
  let ?u = "upload sha_ext bucket_args [?p, ?s] (snd ?g)"
  have out: "exec_output sha_ext c f = (Some (''0f343b09'' @ '' '' @ '' build/CodeWhisperer.dmg''), f)" for c f
    by (simp add: sha_ext_def)
  have r: "fst ?g = Inr ?s"
    by (simp add: generate_sha_def bnd_def thn_def ok_def lift_def run_cmd_output_def write_text_def
        with_name_def Let_def sha_ext_def dmg_world_def is_dir_def)
  then have run: "?g = (Inr ?s, snd ?g)" by (simp add: prod_eq_iff)
  have nb: "n sha_ext bucket_args ''output_bucket''" "bucket_args ''output_bucket'' = Some (JStr ''bkt'')"
    "py_str sha_ext (JStr ''bkt'') = ''bkt''"
    by (simp_all add: n_def sha_ext_def quiet_ext_def bucket_args_def)
  have ur: "fst ?u = Inr ()"
    using nb by (simp add: upload_def index_def bnd_def thn_def ok_def lift_def Let_def run_cmd_def
        sha_ext_def quiet_ext_def split: prod.splits)
  then have urun: "?u = (Inr (), snd ?u)" by (simp add: prod_eq_iff)
  note t = digest_sidecar_and_upload[OF run, of bucket_args]
  from t have t2: "trace (snd ?g) = [RunCmdOutput (shasum_cmd ?p)]"
    by (simp add: dmg_world_def)
  from t obtain o1 f1 where o: "exec_output sha_ext (shasum_cmd ?p) (fs dmg_world) = (Some o1, f1)"
    and d: "\<forall>digest rest. o1 = digest @ '' '' @ rest \<longrightarrow> CHR '' '' \<notin> set digest \<longrightarrow>
                fs (snd ?g) ?s = Some (File (Text digest))"
    by blast
  from o have "o1 = ''0f343b09'' @ '' '' @ '' build/CodeWhisperer.dmg''" by (simp add: out)
  with d have c: "fs (snd ?g) ?s = Some (File (Text ''0f343b09''))"
    by (elim allE[of _ "''0f343b09''"] allE[of _ "'' build/CodeWhisperer.dmg''"]) simp
  from t[THEN conjunct2, THEN conjunct2, THEN conjunct2, THEN conjunct1, rule_format,
         OF nb(1) nb(2) urun]
  have "trace (snd ?u) = trace (snd ?g)
       @ [RunCmd (upload_cmd ?p ''s3://bkt/staging/''), RunCmd (upload_cmd ?s ''s3://bkt/staging/'')]"
    by (auto simp: nb(3))
  with r c t2 show ?thesis by simp
qed

text \<open>The claim as stated fails on Linux: with an output bucket configured the two
  binaries are uploaded, no digest is computed and no sidecar exists or is uploaded.\<close>

theorem linux_publishes_without_digest:
  "package_and_publish (quiet_ext False True) bucket_args None None []
       [''build'', ''cw''] [''build'', ''cwterm''] asset_world
     = (Inr (),
        asset_world\<lparr>trace := [RunCmd (upload_cmd [''build'', ''cw''] ''s3://bkt/staging/''),
                               RunCmd (upload_cmd [''build'', ''cwterm''] ''s3://bkt/staging/'')]\<rparr>)
   \<and> fs asset_world [''build'', ''cw.sha256''] = None
   \<and> fs asset_world [''build'', ''cwterm.sha256''] = None"
proof -
  have tr: "trace asset_world = []" by (simp add: asset_world_def)
  have "package_and_publish (quiet_ext False True) bucket_args None None []
       [''build'', ''cw''] [''build'', ''cwterm''] asset_world
     = (Inr (),
        asset_world\<lparr>trace := [RunCmd (upload_cmd [''build'', ''cw''] ''s3://bkt/staging/''),
                               RunCmd (upload_cmd [''build'', ''cwterm''] ''s3://bkt/staging/'')]\<rparr>)"
    by (simp add: package_and_publish_def upload_def n_def index_def quiet_ext_def bucket_args_def
        bnd_def thn_def ok_def lift_def run_cmd_def upload_cmd_def Let_def tr)
  moreover have "fs asset_world [''build'', ''cw.sha256''] = None"
    "fs asset_world [''build'', ''cwterm.sha256''] = None"
    by (simp_all add: asset_world_def)
  ultimately show ?thesis by simp
qed

subsection \<open>The metadata patch\<close>














subsection \<open>The Linux filesystem tree\<close>


lemma keeps_ok [simp]: "keeps (ok a)" by (simp add: keeps_def ok_def)








lemma bnd_ok:
  assumes "bnd m k w = (Inr b, w')"
  obtains a w1 where "m w = (Inr a, w1)" "k a w1 = (Inr b, w')"
  using assms by (cases rule: bnd_cases) auto

lemma strip_prefix_append [simp]: "strip_prefix d (d @ r) = Some r"
  by (induction d) auto













end
